theory Spec2Isabelle
  imports Main "HOL-Library.Sublist"
begin

section \<open>The CloudFront storage middleware\<close>

text \<open>
  A shallow embedding of \<^verbatim>\<open>registry/storage/driver/middleware/cloudfront/middleware.go\<close>:
  the constructor \<^verbatim>\<open>newCloudFrontStorageMiddleware\<close>, which parses an options map, and
  the method \<^verbatim>\<open>RedirectURL\<close>, which chooses between the wrapped driver's redirect and a
  signed CloudFront URL.
\<close>

subsection \<open>Values and errors\<close>

text \<open>
  A Go \<^verbatim>\<open>error\<close> value is identified with its message. The options map holds
  \<^verbatim>\<open>interface{}\<close> values; the constructor only distinguishes \<^verbatim>\<open>string\<close>,
  \<^verbatim>\<open>time.Duration\<close> and everything else, for which two further dynamic types stand.
  Durations and instants are counted in nanoseconds.
\<close>

datatype error = Error string

datatype optval = VString string | VDuration int | VInt int | VBool bool

type_synonym options = "string \<rightharpoonup> optval"

definition Minute :: int where
  "Minute = 60 * 1000000000"

subsection \<open>The wrapped storage driver\<close>

text \<open>
  A (non-nil) \<^verbatim>\<open>storagedriver.StorageDriver\<close> interface value, as its method table.
  The interface declaration is not part of the file; the middleware itself calls only
  \<^verbatim>\<open>RedirectURL\<close>, so every other operation of the interface is an invocation
  \<open>'call\<close> answered by \<open>drv_invoke\<close>. The field \<open>drv_S3BucketKey\<close> is the outcome of
  the type assertion \<^verbatim>\<open>lh.StorageDriver.(S3BucketKeyer)\<close>: \<open>None\<close> when the dynamic type
  has no method \<^verbatim>\<open>S3BucketKey\<close>.
\<close>

record ('req, 'call, 'ret) storage_driver =
  drv_RedirectURL :: "'req \<Rightarrow> string \<Rightarrow> error + string"
  drv_S3BucketKey :: "(string \<Rightarrow> string) option"
  drv_invoke :: "'call \<Rightarrow> 'ret"

text \<open>\<^verbatim>\<open>sign.NewURLSigner(keypairID, privateKey)\<close> stores its two arguments.\<close>

record 'key URLSigner =
  keyID :: string
  privKey :: "'key"

definition NewURLSigner :: "string \<Rightarrow> 'key \<Rightarrow> 'key URLSigner" where
  "NewURLSigner keypairID privateKey = \<lparr>keyID = keypairID, privKey = privateKey\<rparr>"

text \<open>The struct \<^verbatim>\<open>cloudFrontStorageMiddleware\<close>; a nil \<^verbatim>\<open>*awsIPs\<close> is \<open>None\<close>.\<close>

record ('req, 'call, 'ret, 'key, 'ips) cloudFrontStorageMiddleware =
  StorageDriver :: "('req, 'call, 'ret) storage_driver"
  awsIPs :: "'ips option"
  urlSigner :: "'key URLSigner"
  baseURL :: string
  duration :: int

subsection \<open>What the file calls but does not define\<close>

text \<open>
  The standard library, the AWS signer and the sibling file of the package
  (\<^verbatim>\<open>newAWSIPs\<close>, \<^verbatim>\<open>eligibleForS3\<close>, \<^verbatim>\<open>defaultUpdateFrequency\<close>,
  \<^verbatim>\<open>defaultIPRangesURL\<close>) are parameters of the model: every theorem below holds for
  all of them. \<^verbatim>\<open>url.Parse\<close> is consulted for its error only. \<^verbatim>\<open>pem.Decode\<close> yields
  the bytes of the first block, or nothing. \<open>Sign\<close> takes the signer, the URL and the
  expiry instant.
\<close>

record ('req, 'key, 'ips) world =
  url_Parse :: "string \<Rightarrow> error option"
  os_ReadFile :: "string \<Rightarrow> error + string"
  pem_Decode :: "string \<Rightarrow> string option"
  x509_ParsePKCS1PrivateKey :: "string \<Rightarrow> error + 'key"
  time_ParseDuration :: "string \<Rightarrow> error + int"
  strings_ToLower :: "string \<Rightarrow> string"
  strings_TrimSpace :: "string \<Rightarrow> string"
  newAWSIPs :: "string \<Rightarrow> int \<Rightarrow> string list \<Rightarrow> error + 'ips"
  eligibleForS3 :: "'req \<Rightarrow> 'ips option \<Rightarrow> bool"
  defaultUpdateFrequency :: int
  defaultIPRangesURL :: string
  Sign :: "'key URLSigner \<Rightarrow> string \<Rightarrow> int \<Rightarrow> error + string"

text \<open>
  \<^verbatim>\<open>strings.Contains\<close>, \<^verbatim>\<open>strings.HasSuffix\<close> and \<^verbatim>\<open>strings.Split\<close> compare bytes,
  so they are modelled on byte strings as they are. \<open>Split\<close> is given for a separator
  of one byte, which is how the constructor calls it.
\<close>

definition Contains :: "string \<Rightarrow> string \<Rightarrow> bool" where
  "Contains s substr = sublist substr s"

definition HasSuffix :: "string \<Rightarrow> string \<Rightarrow> bool" where
  "HasSuffix s suff = suffix suff s"

fun Split :: "string \<Rightarrow> char \<Rightarrow> string list" where
  "Split [] sep = [[]]"
| "Split (c # cs) sep =
     (if c = sep then [] # Split cs sep
      else (case Split cs sep of [] \<Rightarrow> [[c]] | x # xs \<Rightarrow> (c # x) # xs))"

subsection \<open>The constructor, block by block\<close>

text \<open>Lines 61 to 78: \<^verbatim>\<open>// parse baseurl\<close>.\<close>

definition parse_baseurl :: "('req, 'key, 'ips) world \<Rightarrow> options \<Rightarrow> error + string" where
  "parse_baseurl env opts =
     (case opts ''baseurl'' of
        None \<Rightarrow> Inl (Error ''no baseurl provided'')
      | Some (VString s) \<Rightarrow>
          (let s1 = (if \<not> Contains s ''://'' then ''https://'' @ s else s);
               s2 = (if \<not> HasSuffix s1 ''/'' then s1 @ ''/'' else s1)
           in case url_Parse env s2 of
                Some (Error msg) \<Rightarrow> Inl (Error (''invalid baseurl: '' @ msg))
              | None \<Rightarrow> Inr s2)
      | Some _ \<Rightarrow> Inl (Error ''baseurl must be a string''))"

text \<open>Lines 80 to 88: \<^verbatim>\<open>// parse privatekey to get pkPath\<close>.\<close>

definition parse_privatekey :: "options \<Rightarrow> error + string" where
  "parse_privatekey opts =
     (case opts ''privatekey'' of
        None \<Rightarrow> Inl (Error ''no privatekey provided'')
      | Some (VString pkPath) \<Rightarrow> Inr pkPath
      | Some _ \<Rightarrow> Inl (Error ''privatekey must be a string''))"

text \<open>Lines 90 to 98: \<^verbatim>\<open>// parse keypairid\<close>.\<close>

definition parse_keypairid :: "options \<Rightarrow> error + string" where
  "parse_keypairid opts =
     (case opts ''keypairid'' of
        None \<Rightarrow> Inl (Error ''no keypairid provided'')
      | Some (VString keypairID) \<Rightarrow> Inr keypairID
      | Some _ \<Rightarrow> Inl (Error ''keypairid must be a string''))"

text \<open>Lines 100 to 114: \<^verbatim>\<open>// get urlSigner from the file specified in pkPath\<close>.\<close>

definition get_urlSigner ::
  "('req, 'key, 'ips) world \<Rightarrow> string \<Rightarrow> string \<Rightarrow> error + 'key URLSigner" where
  "get_urlSigner env pkPath keypairID =
     (case os_ReadFile env pkPath of
        Inl (Error msg) \<Rightarrow> Inl (Error (''failed to read privatekey file: '' @ msg))
      | Inr pkBytes \<Rightarrow>
          (case pem_Decode env pkBytes of
             None \<Rightarrow> Inl (Error ''failed to decode private key as an rsa private key'')
           | Some blockBytes \<Rightarrow>
               (case x509_ParsePKCS1PrivateKey env blockBytes of
                  Inl err \<Rightarrow> Inl err
                | Inr privateKey \<Rightarrow> Inr (NewURLSigner keypairID privateKey))))"

text \<open>
  Lines 116 to 129: \<^verbatim>\<open>// parse duration\<close>. A value that is neither a
  \<^verbatim>\<open>time.Duration\<close> nor a string matches no case of the type switch and leaves the
  default.
\<close>

definition parse_duration :: "('req, 'key, 'ips) world \<Rightarrow> options \<Rightarrow> error + int" where
  "parse_duration env opts =
     (case opts ''duration'' of
        None \<Rightarrow> Inr (20 * Minute)
      | Some (VDuration d) \<Rightarrow> Inr d
      | Some (VString d) \<Rightarrow>
          (case time_ParseDuration env d of
             Inl (Error msg) \<Rightarrow> Inl (Error (''invalid duration: '' @ msg))
           | Inr dur \<Rightarrow> Inr dur)
      | Some _ \<Rightarrow> Inr (20 * Minute))"

text \<open>
  Lines 133 to 137: the misspelled key. The options map is a Go map, so the assignment
  changes the caller's map; the warning goes to the logger.
\<close>

definition deprecation_warning :: string where
  "deprecation_warning = ''cloudfront updatefrenquency is deprecated. Please use updatefrequency''"

definition legacy_updatefrequency :: "options \<Rightarrow> options \<times> string list" where
  "legacy_updatefrequency opts =
     (case opts ''updatefrenquency'' of
        Some v \<Rightarrow> (opts(''updatefrequency'' \<mapsto> v), [deprecation_warning])
      | None \<Rightarrow> (opts, []))"

text \<open>Lines 138 to 149: the type switch on \<^verbatim>\<open>options["updatefrequency"]\<close>.\<close>

definition parse_updatefrequency :: "('req, 'key, 'ips) world \<Rightarrow> options \<Rightarrow> error + int" where
  "parse_updatefrequency env opts =
     (case opts ''updatefrequency'' of
        None \<Rightarrow> Inr (defaultUpdateFrequency env)
      | Some (VDuration u) \<Rightarrow> Inr u
      | Some (VString u) \<Rightarrow>
          (case time_ParseDuration env u of
             Inl (Error msg) \<Rightarrow> Inl (Error (''invalid updatefrequency: '' @ msg))
           | Inr updateFreq \<Rightarrow> Inr updateFreq)
      | Some _ \<Rightarrow> Inr (defaultUpdateFrequency env))"

text \<open>Lines 151 to 159: \<^verbatim>\<open>// parse iprangesurl\<close>.\<close>

definition parse_iprangesurl :: "('req, 'key, 'ips) world \<Rightarrow> options \<Rightarrow> error + string" where
  "parse_iprangesurl env opts =
     (case opts ''iprangesurl'' of
        None \<Rightarrow> Inr (defaultIPRangesURL env)
      | Some (VString iprangeurl) \<Rightarrow> Inr iprangeurl
      | Some _ \<Rightarrow> Inl (Error ''iprangesurl must be a string''))"

text \<open>
  Lines 161 to 196: \<^verbatim>\<open>// parse ipfilteredby\<close>. The nil region slice of the case
  \<^verbatim>\<open>"aws"\<close> is the empty list.
\<close>

definition awsregion_list :: "('req, 'key, 'ips) world \<Rightarrow> string \<Rightarrow> string list" where
  "awsregion_list env regions =
     map (\<lambda>awsRegions. strings_ToLower env (strings_TrimSpace env awsRegions)) (Split regions CHR '','')"

definition parse_ipfilteredby ::
  "('req, 'key, 'ips) world \<Rightarrow> options \<Rightarrow> string \<Rightarrow> int \<Rightarrow> error + 'ips option" where
  "parse_ipfilteredby env opts ipRangesURL updateFrequency =
     (case opts ''ipfilteredby'' of
        None \<Rightarrow> Inr None
      | Some (VString ipFilteredBy) \<Rightarrow>
          (let sel = strings_ToLower env (strings_TrimSpace env ipFilteredBy) in
           if sel = '''' \<or> sel = ''none'' then Inr None
           else if sel = ''aws'' then
             (case newAWSIPs env ipRangesURL updateFrequency [] of
                Inl err \<Rightarrow> Inl err
              | Inr ips \<Rightarrow> Inr (Some ips))
           else if sel = ''awsregion'' then
             (case opts ''awsregion'' of
                None \<Rightarrow> Inl (Error ''awsRegion is not defined'')
              | Some (VString regions) \<Rightarrow>
                  (case newAWSIPs env ipRangesURL updateFrequency (awsregion_list env regions) of
                     Inl err \<Rightarrow> Inl err
                   | Inr ips \<Rightarrow> Inr (Some ips))
              | Some _ \<Rightarrow>
                  Inl (Error ''awsRegion must be a comma separated string of valid aws regions''))
           else Inl (Error ''ipfilteredby only allows a string the following value: none|aws|awsregion''))
      | Some _ \<Rightarrow>
          Inl (Error ''ipfilteredby only allows a string with the following value: none|aws|awsregion''))"

text \<open>
  The constructor. Its value is the returned pair (an error, or the middleware), the
  options map as the call leaves it, and the warnings it logged.
\<close>

definition newCloudFrontStorageMiddleware ::
  "('req, 'key, 'ips) world \<Rightarrow> ('req, 'call, 'ret) storage_driver \<Rightarrow> options \<Rightarrow>
     (error + ('req, 'call, 'ret, 'key, 'ips) cloudFrontStorageMiddleware) \<times> options \<times> string list" where
  "newCloudFrontStorageMiddleware env storageDriver opts =
     (case parse_baseurl env opts of
        Inl err \<Rightarrow> (Inl err, opts, [])
      | Inr base \<Rightarrow>
     (case parse_privatekey opts of
        Inl err \<Rightarrow> (Inl err, opts, [])
      | Inr pkPath \<Rightarrow>
     (case parse_keypairid opts of
        Inl err \<Rightarrow> (Inl err, opts, [])
      | Inr keypairID \<Rightarrow>
     (case get_urlSigner env pkPath keypairID of
        Inl err \<Rightarrow> (Inl err, opts, [])
      | Inr signer \<Rightarrow>
     (case parse_duration env opts of
        Inl err \<Rightarrow> (Inl err, opts, [])
      | Inr dur \<Rightarrow>
     (case legacy_updatefrequency opts of
        (opts', logged) \<Rightarrow>
     (case parse_updatefrequency env opts' of
        Inl err \<Rightarrow> (Inl err, opts', logged)
      | Inr updateFrequency \<Rightarrow>
     (case parse_iprangesurl env opts' of
        Inl err \<Rightarrow> (Inl err, opts', logged)
      | Inr ipRangesURL \<Rightarrow>
     (case parse_ipfilteredby env opts' ipRangesURL updateFrequency of
        Inl err \<Rightarrow> (Inl err, opts', logged)
      | Inr ips \<Rightarrow>
          (Inr \<lparr>StorageDriver = storageDriver, awsIPs = ips, urlSigner = signer,
                baseURL = base, duration = dur\<rparr>, opts', logged))))))))))"

subsection \<open>The redirect decision\<close>

text \<open>
  \<^verbatim>\<open>RedirectURL\<close>, lines 215 to 233. \<open>now\<close> is what \<^verbatim>\<open>time.Now()\<close> reads during the
  call; \<^verbatim>\<open>Add\<close> is addition of nanoseconds. The value is the returned pair and the
  warnings logged.
\<close>

definition unsupported_warning :: string where
  "unsupported_warning = ''the CloudFront middleware does not support this backend storage driver''"

definition RedirectURL ::
  "('req, 'key, 'ips) world \<Rightarrow> ('req, 'call, 'ret, 'key, 'ips) cloudFrontStorageMiddleware \<Rightarrow>
     int \<Rightarrow> 'req \<Rightarrow> string \<Rightarrow> (error + string) \<times> string list" where
  "RedirectURL env lh now r path =
     (case drv_S3BucketKey (StorageDriver lh) of
        None \<Rightarrow> (drv_RedirectURL (StorageDriver lh) r path, [unsupported_warning])
      | Some S3BucketKey \<Rightarrow>
          if eligibleForS3 env r (awsIPs lh) then (drv_RedirectURL (StorageDriver lh) r path, [])
          else (case Sign env (urlSigner lh) (baseURL lh @ S3BucketKey path) (now + duration lh) of
                  Inl err \<Rightarrow> (Inl err, [])
                | Inr cfURL \<Rightarrow> (Inr cfURL, [])))"

text \<open>
  The struct embeds the \<^verbatim>\<open>StorageDriver\<close> field and declares one method of its own,
  \<^verbatim>\<open>RedirectURL\<close>; every other operation called on the middleware is the promoted
  method of the embedded value.
\<close>

definition middleware_invoke ::
  "('req, 'call, 'ret, 'key, 'ips) cloudFrontStorageMiddleware \<Rightarrow> 'call \<Rightarrow> 'ret" where
  "middleware_invoke lh c = drv_invoke (StorageDriver lh) c"

subsection \<open>A concrete world\<close>

text \<open>
  One choice of the parameters, on which the definitions above are evaluated.
  \<open>ascii_ToLower\<close> and \<open>ascii_TrimSpace\<close> are \<^verbatim>\<open>strings.ToLower\<close> and
  \<^verbatim>\<open>strings.TrimSpace\<close> on ASCII strings. Here \<open>newAWSIPs\<close> records its three
  arguments, a request is its remote address, and the signer appends the key pair id to
  an https URL and fails on any other.
\<close>

definition ascii_lower :: "char \<Rightarrow> char" where
  "ascii_lower c =
     (case map_of (zip ''ABCDEFGHIJKLMNOPQRSTUVWXYZ'' ''abcdefghijklmnopqrstuvwxyz'') c of
        None \<Rightarrow> c | Some l \<Rightarrow> l)"

definition ascii_ToLower :: "string \<Rightarrow> string" where
  "ascii_ToLower s = map ascii_lower s"

definition ascii_space :: "char \<Rightarrow> bool" where
  "ascii_space c = (c \<in> set [CHR 0x09, CHR 0x0A, CHR 0x0B, CHR 0x0C, CHR 0x0D, CHR '' ''])"

definition ascii_TrimSpace :: "string \<Rightarrow> string" where
  "ascii_TrimSpace s = rev (dropWhile ascii_space (rev (dropWhile ascii_space s)))"

definition example_world :: "(string, string, string \<times> int \<times> string list) world" where
  "example_world =
     \<lparr>url_Parse = (\<lambda>u. if CHR 0x7F \<in> set u
                        then Some (Error ''net/url: invalid control character in URL'') else None),
      os_ReadFile = (\<lambda>p. if p = ''/etc/docker/cloudfront.pem'' then Inr ''PEM''
                          else Inl (Error ''no such file or directory'')),
      pem_Decode = (\<lambda>b. if b = ''PEM'' then Some ''DER'' else None),
      x509_ParsePKCS1PrivateKey = (\<lambda>b. if b = ''DER'' then Inr ''RSA''
                          else Inl (Error ''x509: failed to parse private key'')),
      time_ParseDuration = (\<lambda>s. if s = ''1h'' then Inr (60 * Minute)
                          else if s = ''30m'' then Inr (30 * Minute)
                          else Inl (Error ''time: invalid duration'')),
      strings_ToLower = ascii_ToLower,
      strings_TrimSpace = ascii_TrimSpace,
      newAWSIPs = (\<lambda>host updateFrequency awsRegion. Inr (host, updateFrequency, awsRegion)),
      eligibleForS3 = (\<lambda>r ips. ips \<noteq> None \<and> r = ''10.0.0.1''),
      defaultUpdateFrequency = 720 * Minute,
      defaultIPRangesURL = ''https://ip-ranges.amazonaws.com/ip-ranges.json'',
      Sign = (\<lambda>signer u expiry. if take 8 u \<noteq> ''https://'' then Inl (Error ''unable to sign'')
                          else Inr (u @ ''?Key-Pair-Id='' @ keyID signer))\<rparr>"

definition s3_driver :: "(string, string, string) storage_driver" where
  "s3_driver =
     \<lparr>drv_RedirectURL = (\<lambda>r path. Inr (''https://bucket.s3.amazonaws.com/registry'' @ path)),
      drv_S3BucketKey = Some (\<lambda>path. ''registry'' @ path),
      drv_invoke = (\<lambda>c. ''s3: '' @ c)\<rparr>"

definition presign_failing_driver :: "(string, string, string) storage_driver" where
  "presign_failing_driver =
     \<lparr>drv_RedirectURL = (\<lambda>r path. Inl (Error ''s3: presign failed'')),
      drv_S3BucketKey = Some (\<lambda>path. ''registry'' @ path),
      drv_invoke = (\<lambda>c. ''s3: '' @ c)\<rparr>"

definition plain_driver :: "(string, string, string) storage_driver" where
  "plain_driver =
     \<lparr>drv_RedirectURL = (\<lambda>r path. Inr (''file:///var/lib/registry'' @ path)),
      drv_S3BucketKey = None,
      drv_invoke = (\<lambda>c. ''filesystem: '' @ c)\<rparr>"

definition example_options :: options where
  "example_options =
     [''baseurl'' \<mapsto> VString ''d111111abcdef8.cloudfront.net'',
      ''privatekey'' \<mapsto> VString ''/etc/docker/cloudfront.pem'',
      ''keypairid'' \<mapsto> VString ''K2JCJMDEHXQW5F'',
      ''ipfilteredby'' \<mapsto> VString '' AWS '']"

definition example_middleware ::
  "(string, string, string, string, string \<times> int \<times> string list) cloudFrontStorageMiddleware" where
  "example_middleware =
     \<lparr>StorageDriver = s3_driver,
      awsIPs = Some (''https://ip-ranges.amazonaws.com/ip-ranges.json'', 43200000000000, []),
      urlSigner = \<lparr>keyID = ''K2JCJMDEHXQW5F'', privKey = ''RSA''\<rparr>,
      baseURL = ''https://d111111abcdef8.cloudfront.net/'',
      duration = 1200000000000\<rparr>"

lemmas constructor_defs =
  newCloudFrontStorageMiddleware_def parse_baseurl_def parse_privatekey_def parse_keypairid_def
  get_urlSigner_def parse_duration_def legacy_updatefrequency_def parse_updatefrequency_def
  parse_iprangesurl_def parse_ipfilteredby_def awsregion_list_def NewURLSigner_def
  Contains_def sublist_code(3) Minute_def

lemmas example_defs =
  example_world_def s3_driver_def plain_driver_def presign_failing_driver_def
  example_options_def example_middleware_def
  ascii_ToLower_def ascii_TrimSpace_def ascii_space_def ascii_lower_def

section \<open>Properties\<close>

subsection \<open>Each block reads its own keys\<close>

lemma parse_baseurl_cong:
  "opts ''baseurl'' = opts2 ''baseurl'' \<Longrightarrow> parse_baseurl env opts = parse_baseurl env opts2"
  by (simp add: parse_baseurl_def)

lemma parse_privatekey_cong:
  "opts ''privatekey'' = opts2 ''privatekey'' \<Longrightarrow> parse_privatekey opts = parse_privatekey opts2"
  by (simp add: parse_privatekey_def)

lemma parse_keypairid_cong:
  "opts ''keypairid'' = opts2 ''keypairid'' \<Longrightarrow> parse_keypairid opts = parse_keypairid opts2"
  by (simp add: parse_keypairid_def)

lemma parse_duration_cong:
  "opts ''duration'' = opts2 ''duration'' \<Longrightarrow> parse_duration env opts = parse_duration env opts2"
  by (simp add: parse_duration_def)

lemma parse_updatefrequency_cong:
  "opts ''updatefrequency'' = opts2 ''updatefrequency'' \<Longrightarrow>
     parse_updatefrequency env opts = parse_updatefrequency env opts2"
  by (simp add: parse_updatefrequency_def)

lemma parse_iprangesurl_cong:
  "opts ''iprangesurl'' = opts2 ''iprangesurl'' \<Longrightarrow>
     parse_iprangesurl env opts = parse_iprangesurl env opts2"
  by (simp add: parse_iprangesurl_def)

lemma parse_ipfilteredby_cong:
  "opts ''ipfilteredby'' = opts2 ''ipfilteredby'' \<Longrightarrow> opts ''awsregion'' = opts2 ''awsregion'' \<Longrightarrow>
     parse_ipfilteredby env opts u f = parse_ipfilteredby env opts2 u f"
  by (simp add: parse_ipfilteredby_def Let_def split: option.splits optval.splits)

lemma legacy_keeps:
  "k \<noteq> ''updatefrequency'' \<Longrightarrow> fst (legacy_updatefrequency opts) k = opts k"
  by (simp add: legacy_updatefrequency_def split: option.splits)

lemma parse_ipfilteredby_legacy:
  "parse_ipfilteredby env (fst (legacy_updatefrequency opts)) u f = parse_ipfilteredby env opts u f"
  by (rule parse_ipfilteredby_cong) (simp_all add: legacy_keeps)

subsection \<open>What a successful construction fixes\<close>

lemma construct_result:
  "fst (newCloudFrontStorageMiddleware env d opts) =
     (case parse_baseurl env opts of Inl err \<Rightarrow> Inl err | Inr base \<Rightarrow>
     (case parse_privatekey opts of Inl err \<Rightarrow> Inl err | Inr pkPath \<Rightarrow>
     (case parse_keypairid opts of Inl err \<Rightarrow> Inl err | Inr keypairID \<Rightarrow>
     (case get_urlSigner env pkPath keypairID of Inl err \<Rightarrow> Inl err | Inr signer \<Rightarrow>
     (case parse_duration env opts of Inl err \<Rightarrow> Inl err | Inr dur \<Rightarrow>
     (case parse_updatefrequency env (fst (legacy_updatefrequency opts)) of
        Inl err \<Rightarrow> Inl err | Inr updateFrequency \<Rightarrow>
     (case parse_iprangesurl env (fst (legacy_updatefrequency opts)) of
        Inl err \<Rightarrow> Inl err | Inr ipRangesURL \<Rightarrow>
     (case parse_ipfilteredby env (fst (legacy_updatefrequency opts)) ipRangesURL updateFrequency of
        Inl err \<Rightarrow> Inl err
      | Inr ips \<Rightarrow>
          Inr \<lparr>StorageDriver = d, awsIPs = ips, urlSigner = signer,
               baseURL = base, duration = dur\<rparr>))))))))"
  by (simp add: newCloudFrontStorageMiddleware_def split: sum.splits prod.splits)

lemma constructed_fields:
  assumes "fst (newCloudFrontStorageMiddleware env d opts) = Inr mw"
  shows "parse_baseurl env opts = Inr (baseURL mw)"
    and "parse_duration env opts = Inr (duration mw)"
    and "StorageDriver mw = d"
  using assms
  by (auto simp: newCloudFrontStorageMiddleware_def split: sum.splits prod.splits)

lemma constructed_awsIPs:
  assumes "fst (newCloudFrontStorageMiddleware env d opts) = Inr mw"
  shows "\<exists>u f. parse_ipfilteredby env opts u f = Inr (awsIPs mw)"
  using assms
  by (fastforce simp: construct_result parse_ipfilteredby_legacy split: sum.splits)

lemma constructed_logged:
  assumes "fst (newCloudFrontStorageMiddleware env d opts) = Inr mw"
  shows "snd (newCloudFrontStorageMiddleware env d opts) = legacy_updatefrequency opts"
  using assms
  by (auto simp: newCloudFrontStorageMiddleware_def split: sum.splits prod.splits)

lemma construct_fails:
  assumes "\<And>u f. isl (parse_ipfilteredby env opts u f)"
  shows "\<exists>err. fst (newCloudFrontStorageMiddleware env d opts) = Inl err"
proof (cases "fst (newCloudFrontStorageMiddleware env d opts)")
  case (Inl err)
  then show ?thesis by blast
next
  case (Inr mw)
  from constructed_awsIPs [OF Inr] obtain u f where
    "parse_ipfilteredby env opts u f = Inr (awsIPs mw)" by blast
  with assms [of u f] show ?thesis by simp
qed

lemma construct_cong:
  assumes "\<And>k. k \<noteq> ''updatefrequency'' \<Longrightarrow> k \<noteq> ''updatefrenquency'' \<Longrightarrow> opts k = opts2 k"
    and "fst (legacy_updatefrequency opts) ''updatefrequency'' =
         fst (legacy_updatefrequency opts2) ''updatefrequency''"
  shows "fst (newCloudFrontStorageMiddleware env d opts) =
         fst (newCloudFrontStorageMiddleware env d opts2)"
proof -
  have same: "fst (legacy_updatefrequency opts) k = fst (legacy_updatefrequency opts2) k"
    if "k \<noteq> ''updatefrenquency''" for k
    using that assms by (cases "k = ''updatefrequency''") (simp_all add: legacy_keeps)
  have 1: "parse_baseurl env opts = parse_baseurl env opts2"
    by (rule parse_baseurl_cong) (simp add: assms(1))
  have 2: "parse_privatekey opts = parse_privatekey opts2"
    by (rule parse_privatekey_cong) (simp add: assms(1))
  have 3: "parse_keypairid opts = parse_keypairid opts2"
    by (rule parse_keypairid_cong) (simp add: assms(1))
  have 4: "parse_duration env opts = parse_duration env opts2"
    by (rule parse_duration_cong) (simp add: assms(1))
  have 5: "parse_updatefrequency env (fst (legacy_updatefrequency opts)) =
           parse_updatefrequency env (fst (legacy_updatefrequency opts2))"
    by (rule parse_updatefrequency_cong) (rule assms(2))
  have 6: "parse_iprangesurl env (fst (legacy_updatefrequency opts)) =
           parse_iprangesurl env (fst (legacy_updatefrequency opts2))"
    by (rule parse_iprangesurl_cong) (simp add: same)
  have 7: "parse_ipfilteredby env (fst (legacy_updatefrequency opts)) u f =
           parse_ipfilteredby env (fst (legacy_updatefrequency opts2)) u f" for u f
    by (rule parse_ipfilteredby_cong) (simp_all add: same)
  show ?thesis
    by (simp only: construct_result 1 2 3 4 5 6 7)
qed

lemma parse_ipfilteredby_disabled:
  assumes "opts ''ipfilteredby'' = None \<or>
      (\<exists>s. opts ''ipfilteredby'' = Some (VString s) \<and>
           (strings_ToLower env (strings_TrimSpace env s) = [] \<or>
            strings_ToLower env (strings_TrimSpace env s) = ''none''))"
  shows "parse_ipfilteredby env opts u f = Inr None"
  using assms
proof (elim disjE exE conjE)
  assume "opts ''ipfilteredby'' = None"
  then show ?thesis by (simp add: parse_ipfilteredby_def)
next
  fix s
  assume "opts ''ipfilteredby'' = Some (VString s)"
    and "strings_ToLower env (strings_TrimSpace env s) = []"
  then show ?thesis by (simp add: parse_ipfilteredby_def Let_def)
next
  fix s
  assume "opts ''ipfilteredby'' = Some (VString s)"
    and "strings_ToLower env (strings_TrimSpace env s) = ''none''"
  then show ?thesis by (simp add: parse_ipfilteredby_def Let_def)
qed

lemma construct_without_newAWSIPs:
  assumes "opts ''ipfilteredby'' = None \<or>
      (\<exists>s. opts ''ipfilteredby'' = Some (VString s) \<and>
           (strings_ToLower env (strings_TrimSpace env s) = [] \<or>
            strings_ToLower env (strings_TrimSpace env s) = ''none''))"
  shows "fst (newCloudFrontStorageMiddleware (env\<lparr>newAWSIPs := g\<rparr>) d opts) =
         fst (newCloudFrontStorageMiddleware env d opts)"
proof -
  have "parse_ipfilteredby env opts u f = Inr None" for u f
    using assms by (rule parse_ipfilteredby_disabled)
  moreover have "parse_ipfilteredby (env\<lparr>newAWSIPs := g\<rparr>) opts u f = Inr None" for u f
    by (rule parse_ipfilteredby_disabled) (use assms in simp)
  ultimately
  have 1: "parse_ipfilteredby (env\<lparr>newAWSIPs := g\<rparr>) (fst (legacy_updatefrequency opts)) u f =
           parse_ipfilteredby env (fst (legacy_updatefrequency opts)) u f" for u f
    by (simp add: parse_ipfilteredby_legacy)
  have 2: "parse_baseurl (env\<lparr>newAWSIPs := g\<rparr>) = parse_baseurl env"
    by (intro ext) (simp add: parse_baseurl_def Let_def split: option.splits optval.splits)
  have 3: "get_urlSigner (env\<lparr>newAWSIPs := g\<rparr>) = get_urlSigner env"
    by (intro ext) (simp add: get_urlSigner_def split: sum.splits option.splits error.splits)
  have 4: "parse_duration (env\<lparr>newAWSIPs := g\<rparr>) = parse_duration env"
    by (intro ext) (simp add: parse_duration_def split: option.splits optval.splits)
  have 5: "parse_updatefrequency (env\<lparr>newAWSIPs := g\<rparr>) = parse_updatefrequency env"
    by (intro ext) (simp add: parse_updatefrequency_def split: option.splits optval.splits)
  have 6: "parse_iprangesurl (env\<lparr>newAWSIPs := g\<rparr>) = parse_iprangesurl env"
    by (intro ext) (simp add: parse_iprangesurl_def split: option.splits optval.splits)
  show ?thesis
    by (simp only: construct_result 1 2 3 4 5 6)
qed

lemma HasSuffix_slash: "HasSuffix s ''/'' \<longleftrightarrow> s \<noteq> [] \<and> last s = CHR ''/''"
  by (cases s rule: rev_cases) (auto simp: HasSuffix_def)

subsection \<open>The examples, evaluated\<close>

lemma example_construction:
  "fst (newCloudFrontStorageMiddleware example_world s3_driver example_options) =
     Inr example_middleware"
  by (simp add: constructor_defs HasSuffix_slash example_defs)

lemma example_key:
  "drv_S3BucketKey (StorageDriver example_middleware) = Some (\<lambda>path. ''registry'' @ path)"
  by (simp add: example_defs)

subsection \<open>The redirect decision\<close>

text \<open>
  Claim C1. When the wrapped driver is an \<^verbatim>\<open>S3BucketKeyer\<close>, the value of
  \<^verbatim>\<open>RedirectURL\<close> is the wrapped driver's own redirect if \<^verbatim>\<open>eligibleForS3\<close> accepts
  the request, and otherwise what the URL signer returns for the base URL followed by the
  driver's key for the path, with expiry the current time plus the configured duration.
\<close>

theorem RedirectURL_decision:
  "drv_S3BucketKey (StorageDriver lh) = Some key \<Longrightarrow>
   fst (RedirectURL env lh now r path) =
     (if eligibleForS3 env r (awsIPs lh) then drv_RedirectURL (StorageDriver lh) r path
      else Sign env (urlSigner lh) (baseURL lh @ key path) (now + duration lh))"
  by (simp add: RedirectURL_def split: sum.splits)

theorem RedirectURL_decision_witness:
  "drv_S3BucketKey (StorageDriver example_middleware) = Some (\<lambda>path. ''registry'' @ path) \<and>
   fst (RedirectURL example_world example_middleware 1000 ''203.0.113.7'' ''/blobs/ab'') =
     Sign example_world (urlSigner example_middleware)
       ''https://d111111abcdef8.cloudfront.net/registry/blobs/ab'' (1000 + 1200000000000) \<and>
   fst (RedirectURL example_world example_middleware 1000 ''203.0.113.7'' ''/blobs/ab'') =
     Inr ''https://d111111abcdef8.cloudfront.net/registry/blobs/ab?Key-Pair-Id=K2JCJMDEHXQW5F'' \<and>
   fst (RedirectURL example_world example_middleware 1000 ''10.0.0.1'' ''/blobs/ab'') =
     Inr ''https://bucket.s3.amazonaws.com/registry/blobs/ab''"
  using RedirectURL_decision [OF example_key, of example_world 1000 "''203.0.113.7''" "''/blobs/ab''"]
    RedirectURL_decision [OF example_key, of example_world 1000 "''10.0.0.1''" "''/blobs/ab''"]
  by (simp add: example_defs)

text \<open>
  Claim C2. When the wrapped driver is not an \<^verbatim>\<open>S3BucketKeyer\<close>, \<^verbatim>\<open>RedirectURL\<close>
  returns what the wrapped driver's \<^verbatim>\<open>RedirectURL\<close> returns, whatever the filter, the
  signer and the request's address are, and logs that the backend is not supported.
\<close>

theorem RedirectURL_without_keyer:
  "drv_S3BucketKey (StorageDriver lh) = None \<Longrightarrow>
   RedirectURL env lh now r path =
     (drv_RedirectURL (StorageDriver lh) r path, [unsupported_warning])"
  by (simp add: RedirectURL_def)

theorem RedirectURL_without_keyer_witness:
  "drv_S3BucketKey (StorageDriver (example_middleware\<lparr>StorageDriver := plain_driver\<rparr>)) = None \<and>
   RedirectURL example_world (example_middleware\<lparr>StorageDriver := plain_driver\<rparr>)
       1000 ''203.0.113.7'' ''/blobs/ab'' =
     (Inr ''file:///var/lib/registry/blobs/ab'', [unsupported_warning])"
proof -
  have h: "drv_S3BucketKey (StorageDriver (example_middleware\<lparr>StorageDriver := plain_driver\<rparr>)) = None"
    by (simp add: example_defs)
  from RedirectURL_without_keyer [OF h, of example_world 1000 "''203.0.113.7''" "''/blobs/ab''"] h
  show ?thesis by (simp add: example_defs)
qed

text \<open>
  Claim C3, as it is written: the only error \<^verbatim>\<open>RedirectURL\<close> returns is one the URL
  signer produced. It fails: for a request that \<^verbatim>\<open>eligibleForS3\<close> accepts, the wrapped
  driver's error is returned, although the signer succeeds on the URL and expiry of that
  very request.
\<close>

theorem RedirectURL_only_signing_errors_counterexample:
  "fst (RedirectURL example_world (example_middleware\<lparr>StorageDriver := presign_failing_driver\<rparr>)
          1000 ''10.0.0.1'' ''/blobs/ab'') = Inl (Error ''s3: presign failed'') \<and>
   Sign example_world (urlSigner example_middleware)
     (baseURL example_middleware @ ''registry'' @ ''/blobs/ab'')
     (1000 + duration example_middleware) =
     Inr ''https://d111111abcdef8.cloudfront.net/registry/blobs/ab?Key-Pair-Id=K2JCJMDEHXQW5F''"
  by (simp add: RedirectURL_def example_defs)

text \<open>
  Claim C3, amended. \<^verbatim>\<open>RedirectURL\<close> returns an error exactly in two ways, each time
  unchanged: the wrapped driver's \<^verbatim>\<open>RedirectURL\<close> returned it, on the two paths that
  hand the request to the wrapped driver; or the URL signer returned it, on the path that
  signs. Nothing else in \<^verbatim>\<open>RedirectURL\<close> yields an error.
\<close>

theorem RedirectURL_errors:
  "fst (RedirectURL env lh now r path) = Inl err \<longleftrightarrow>
     (case drv_S3BucketKey (StorageDriver lh) of
        None \<Rightarrow> drv_RedirectURL (StorageDriver lh) r path = Inl err
      | Some key \<Rightarrow>
          if eligibleForS3 env r (awsIPs lh) then drv_RedirectURL (StorageDriver lh) r path = Inl err
          else Sign env (urlSigner lh) (baseURL lh @ key path) (now + duration lh) = Inl err)"
  by (simp add: RedirectURL_def split: sum.splits option.splits)

theorem RedirectURL_errors_witness:
  "fst (RedirectURL example_world (example_middleware\<lparr>baseURL := ''cdn/''\<rparr>)
          1000 ''203.0.113.7'' ''/blobs/ab'') = Inl (Error ''unable to sign'') \<and>
   Sign example_world (urlSigner example_middleware) ''cdn/registry/blobs/ab''
     (1000 + 1200000000000) = Inl (Error ''unable to sign'')"
proof -
  have "Sign example_world (urlSigner example_middleware) ''cdn/registry/blobs/ab''
     (1000 + 1200000000000) = Inl (Error ''unable to sign'')"
    by (simp add: example_defs)
  moreover from this
  have "fst (RedirectURL example_world (example_middleware\<lparr>baseURL := ''cdn/''\<rparr>)
          1000 ''203.0.113.7'' ''/blobs/ab'') = Inl (Error ''unable to sign'')"
    unfolding RedirectURL_errors by (simp add: example_defs)
  ultimately show ?thesis by simp
qed

subsection \<open>The constructor\<close>

text \<open>
  Claim C4. If one of the keys \<^verbatim>\<open>baseurl\<close>, \<^verbatim>\<open>privatekey\<close>, \<^verbatim>\<open>keypairid\<close> is absent
  from the options or bound to a value that is not a string, the constructor returns an
  error, and so no middleware.
\<close>

theorem required_options:
  assumes "k \<in> {''baseurl'', ''privatekey'', ''keypairid''}"
    and "\<forall>s. opts k \<noteq> Some (VString s)"
  shows "\<exists>err. fst (newCloudFrontStorageMiddleware env d opts) = Inl err"
proof -
  from assms
  have "isl (parse_baseurl env opts) \<or> isl (parse_privatekey opts) \<or> isl (parse_keypairid opts)"
    by (auto simp: parse_baseurl_def parse_privatekey_def parse_keypairid_def
             split: option.splits optval.splits)
  then have "isl (fst (newCloudFrontStorageMiddleware env d opts))"
    by (auto simp: construct_result isl_def split: sum.splits)
  then show ?thesis by (auto simp: isl_def)
qed

theorem required_options_witness:
  "''keypairid'' \<in> {''baseurl'', ''privatekey'', ''keypairid''} \<and>
   (\<forall>s. (example_options(''keypairid'' \<mapsto> VInt 7)) ''keypairid'' \<noteq> Some (VString s)) \<and>
   (\<exists>err. fst (newCloudFrontStorageMiddleware example_world s3_driver
                 (example_options(''keypairid'' \<mapsto> VInt 7))) = Inl err) \<and>
   (\<forall>s. (example_options(''privatekey'' := None)) ''privatekey'' \<noteq> Some (VString s)) \<and>
   (\<exists>err. fst (newCloudFrontStorageMiddleware example_world s3_driver
                 (example_options(''privatekey'' := None))) = Inl err)"
proof -
  have k: "''keypairid'' \<in> {''baseurl'', ''privatekey'', ''keypairid''}"
    and p: "''privatekey'' \<in> {''baseurl'', ''privatekey'', ''keypairid''}" by simp_all
  have a: "\<forall>s. (example_options(''keypairid'' \<mapsto> VInt 7)) ''keypairid'' \<noteq> Some (VString s)"
    and b: "\<forall>s. (example_options(''privatekey'' := None)) ''privatekey'' \<noteq> Some (VString s)"
    by simp_all
  from k a b
    required_options [where k = "''keypairid''" and env = example_world and d = s3_driver
      and opts = "example_options(''keypairid'' \<mapsto> VInt 7)", OF k a]
    required_options [where k = "''privatekey''" and env = example_world and d = s3_driver
      and opts = "example_options(''privatekey'' := None)", OF p b]
  show ?thesis by blast
qed



text \<open>
  Claim C6. The stored duration is the configured one: 20 minutes (1200000000000 ns) when
  the \<^verbatim>\<open>duration\<close> option is absent, the option's value when it is a
  \<^verbatim>\<open>time.Duration\<close>, what \<^verbatim>\<open>time.ParseDuration\<close> makes of it when it is a string, and
  20 minutes again for a value of any other type. Whenever \<^verbatim>\<open>RedirectURL\<close> signs, the
  expiry it hands to the signer is the time read in that call plus the stored duration.
  \<^verbatim>\<open>RedirectURL\<close> takes the middleware and returns no new one: nothing of the expiry is
  kept.
\<close>

theorem expiry_duration:
  "(fst (newCloudFrontStorageMiddleware env d opts) = Inr mw \<and> opts ''duration'' = None
      \<longrightarrow> duration mw = 20 * Minute \<and> duration mw = 1200000000000) \<and>
   (fst (newCloudFrontStorageMiddleware env d opts) = Inr mw \<and>
    opts ''duration'' = Some (VDuration dd)
      \<longrightarrow> duration mw = dd) \<and>
   (fst (newCloudFrontStorageMiddleware env d opts) = Inr mw \<and>
    opts ''duration'' = Some (VString ds)
      \<longrightarrow> time_ParseDuration env ds = Inr (duration mw)) \<and>
   (fst (newCloudFrontStorageMiddleware env d opts) = Inr mw \<and>
    (opts ''duration'' = Some (VInt i) \<or> opts ''duration'' = Some (VBool b))
      \<longrightarrow> duration mw = 1200000000000) \<and>
   (drv_S3BucketKey (StorageDriver lh) = Some key \<and> \<not> eligibleForS3 env r (awsIPs lh)
      \<longrightarrow> fst (RedirectURL env lh now r path) =
            Sign env (urlSigner lh) (baseURL lh @ key path) (now + duration lh))"
proof -
  have stored: "parse_duration env opts = Inr (duration mw)"
    if "fst (newCloudFrontStorageMiddleware env d opts) = Inr mw"
    using that by (rule constructed_fields)
  have "duration mw = 20 * Minute"
    if "fst (newCloudFrontStorageMiddleware env d opts) = Inr mw" and "opts ''duration'' = None"
    using stored [OF that(1)] that(2) by (simp add: parse_duration_def)
  moreover have "duration mw = dd"
    if "fst (newCloudFrontStorageMiddleware env d opts) = Inr mw"
      and "opts ''duration'' = Some (VDuration dd)"
    using stored [OF that(1)] that(2) by (simp add: parse_duration_def)
  moreover have "time_ParseDuration env ds = Inr (duration mw)"
    if "fst (newCloudFrontStorageMiddleware env d opts) = Inr mw"
      and "opts ''duration'' = Some (VString ds)"
    using stored [OF that(1)] that(2)
    by (simp add: parse_duration_def split: sum.splits error.splits)
  moreover have "duration mw = 20 * Minute"
    if "fst (newCloudFrontStorageMiddleware env d opts) = Inr mw"
      and "opts ''duration'' = Some (VInt i) \<or> opts ''duration'' = Some (VBool b)"
    using stored [OF that(1)] that(2) by (auto simp: parse_duration_def)
  moreover have "fst (RedirectURL env lh now r path) =
            Sign env (urlSigner lh) (baseURL lh @ key path) (now + duration lh)"
    if "drv_S3BucketKey (StorageDriver lh) = Some key" and "\<not> eligibleForS3 env r (awsIPs lh)"
    using that by (simp add: RedirectURL_def split: sum.splits)
  ultimately show ?thesis by (simp add: Minute_def)
qed

theorem expiry_duration_witness:
  "fst (newCloudFrontStorageMiddleware example_world s3_driver example_options) =
     Inr example_middleware \<and>
   example_options ''duration'' = None \<and>
   duration example_middleware = 1200000000000 \<and>
   fst (newCloudFrontStorageMiddleware example_world s3_driver
          (example_options(''duration'' \<mapsto> VDuration 90000000000))) =
     Inr (example_middleware\<lparr>duration := 90000000000\<rparr>) \<and>
   duration (example_middleware\<lparr>duration := 90000000000\<rparr>) = 90000000000 \<and>
   fst (newCloudFrontStorageMiddleware example_world s3_driver
          (example_options(''duration'' \<mapsto> VString ''30m''))) =
     Inr (example_middleware\<lparr>duration := 1800000000000\<rparr>) \<and>
   time_ParseDuration example_world ''30m'' =
     Inr (duration (example_middleware\<lparr>duration := 1800000000000\<rparr>)) \<and>
   fst (newCloudFrontStorageMiddleware example_world s3_driver
          (example_options(''duration'' \<mapsto> VBool True))) =
     Inr example_middleware \<and>
   \<not> eligibleForS3 example_world ''203.0.113.7''
       (awsIPs (example_middleware\<lparr>duration := 1800000000000\<rparr>)) \<and>
   fst (RedirectURL example_world (example_middleware\<lparr>duration := 1800000000000\<rparr>)
          5000 ''203.0.113.7'' ''/blobs/ab'') =
     Sign example_world (urlSigner example_middleware)
       (baseURL example_middleware @ ''registry/blobs/ab'') (5000 + 1800000000000)"
proof -
  have n: "example_options ''duration'' = None"
    by (simp add: example_options_def)
  have c1: "fst (newCloudFrontStorageMiddleware example_world s3_driver
          (example_options(''duration'' \<mapsto> VDuration 90000000000))) =
     Inr (example_middleware\<lparr>duration := 90000000000\<rparr>)"
    by (simp add: constructor_defs HasSuffix_slash example_defs)
  have o1: "(example_options(''duration'' \<mapsto> VDuration 90000000000)) ''duration'' =
      Some (VDuration 90000000000)"
    by simp
  have c2: "fst (newCloudFrontStorageMiddleware example_world s3_driver
          (example_options(''duration'' \<mapsto> VString ''30m''))) =
     Inr (example_middleware\<lparr>duration := 1800000000000\<rparr>)"
    by (simp add: constructor_defs HasSuffix_slash example_defs)
  have o2: "(example_options(''duration'' \<mapsto> VString ''30m'')) ''duration'' =
      Some (VString ''30m'')"
    by simp
  have c3: "fst (newCloudFrontStorageMiddleware example_world s3_driver
          (example_options(''duration'' \<mapsto> VBool True))) =
     Inr example_middleware"
    by (simp add: constructor_defs HasSuffix_slash example_defs)
  have e: "\<not> eligibleForS3 example_world ''203.0.113.7''
       (awsIPs (example_middleware\<lparr>duration := 1800000000000\<rparr>))"
    by (simp add: example_world_def)
  have k: "drv_S3BucketKey (StorageDriver (example_middleware\<lparr>duration := 1800000000000\<rparr>)) =
      Some (\<lambda>path. ''registry'' @ path)"
    by (simp add: example_defs)
  note t0 = expiry_duration [where env = example_world and d = s3_driver
      and opts = example_options and mw = example_middleware]
  note t1 = expiry_duration [where env = example_world and d = s3_driver
      and opts = "example_options(''duration'' \<mapsto> VDuration 90000000000)"
      and mw = "example_middleware\<lparr>duration := 90000000000\<rparr>" and dd = 90000000000]
  note t2 = expiry_duration [where env = example_world and d = s3_driver
      and opts = "example_options(''duration'' \<mapsto> VString ''30m'')"
      and mw = "example_middleware\<lparr>duration := 1800000000000\<rparr>" and ds = "''30m''"
      and lh = "example_middleware\<lparr>duration := 1800000000000\<rparr>"
      and key = "\<lambda>path. ''registry'' @ path" and r = "''203.0.113.7''" and now = 5000
      and path = "''/blobs/ab''"]
  from t0 example_construction n
  have d0: "duration example_middleware = 1200000000000" by blast
  from t1 c1 o1
  have d1: "duration (example_middleware\<lparr>duration := 90000000000\<rparr>) = 90000000000" by blast
  from t2 c2 o2
  have d2: "time_ParseDuration example_world ''30m'' =
     Inr (duration (example_middleware\<lparr>duration := 1800000000000\<rparr>))" by blast
  from t2 k e
  have "fst (RedirectURL example_world (example_middleware\<lparr>duration := 1800000000000\<rparr>)
          5000 ''203.0.113.7'' ''/blobs/ab'') =
     Sign example_world (urlSigner (example_middleware\<lparr>duration := 1800000000000\<rparr>))
       (baseURL (example_middleware\<lparr>duration := 1800000000000\<rparr>) @
          (\<lambda>path. ''registry'' @ path) ''/blobs/ab'')
       (5000 + duration (example_middleware\<lparr>duration := 1800000000000\<rparr>))"
    by blast
  then have s: "fst (RedirectURL example_world (example_middleware\<lparr>duration := 1800000000000\<rparr>)
          5000 ''203.0.113.7'' ''/blobs/ab'') =
     Sign example_world (urlSigner example_middleware)
       (baseURL example_middleware @ ''registry/blobs/ab'') (5000 + 1800000000000)"
    by simp
  from example_construction n d0 c1 d1 c2 d2 c3 e s show ?thesis by (intro conjI)
qed

lemma construct_reaches_legacy:
  assumes "parse_baseurl env opts = Inr base" and "parse_privatekey opts = Inr pkPath"
    and "parse_keypairid opts = Inr keypairID"
    and "get_urlSigner env pkPath keypairID = Inr signer"
    and "parse_duration env opts = Inr dur"
  shows "snd (newCloudFrontStorageMiddleware env d opts) = legacy_updatefrequency opts"
  by (simp add: newCloudFrontStorageMiddleware_def assms split: sum.splits prod.splits)

lemma construct_before_legacy:
  assumes "isl (parse_baseurl env opts) \<or> isl (parse_privatekey opts) \<or>
      isl (parse_keypairid opts) \<or>
      (\<exists>pkPath keypairID. parse_privatekey opts = Inr pkPath \<and>
          parse_keypairid opts = Inr keypairID \<and> isl (get_urlSigner env pkPath keypairID)) \<or>
      isl (parse_duration env opts)"
  shows "snd (newCloudFrontStorageMiddleware env d opts) = (opts, [])"
  using assms
  by (auto simp: newCloudFrontStorageMiddleware_def split: sum.splits prod.splits)

text \<open>
  Claim C7. A value under the misspelled key \<^verbatim>\<open>updatefrenquency\<close> gives the constructor
  the result it gives for the options that carry the same value under \<^verbatim>\<open>updatefrequency\<close>
  and have no misspelled key: the same refresh interval is parsed and handed on. Every
  construction that gets to the refresh interval, that is, whose five earlier blocks
  succeed, has written the value under \<^verbatim>\<open>updatefrequency\<close> and logged the deprecation
  warning, whether it then returns a middleware or an error; a construction that fails in
  an earlier block returns before the key is looked at and logs nothing.
\<close>

theorem legacy_key_honoured:
  assumes "opts ''updatefrenquency'' = Some v"
  shows "fst (newCloudFrontStorageMiddleware env d opts) =
           fst (newCloudFrontStorageMiddleware env d
                  ((opts(''updatefrenquency'' := None))(''updatefrequency'' \<mapsto> v))) \<and>
         parse_updatefrequency env (fst (legacy_updatefrequency opts)) =
           parse_updatefrequency env [''updatefrequency'' \<mapsto> v] \<and>
         snd (legacy_updatefrequency opts) = [deprecation_warning] \<and>
         ((\<exists>mw. fst (newCloudFrontStorageMiddleware env d opts) = Inr mw) \<longrightarrow>
            snd (snd (newCloudFrontStorageMiddleware env d opts)) = [deprecation_warning]) \<and>
         (parse_baseurl env opts = Inr base \<and> parse_privatekey opts = Inr pkPath \<and>
          parse_keypairid opts = Inr keypairID \<and>
          get_urlSigner env pkPath keypairID = Inr signer \<and>
          parse_duration env opts = Inr dur \<longrightarrow>
            snd (newCloudFrontStorageMiddleware env d opts) =
              (opts(''updatefrequency'' \<mapsto> v), [deprecation_warning])) \<and>
         (isl (parse_baseurl env opts) \<or> isl (parse_privatekey opts) \<or>
          isl (parse_keypairid opts) \<or>
          (\<exists>pkPath keypairID. parse_privatekey opts = Inr pkPath \<and>
              parse_keypairid opts = Inr keypairID \<and>
              isl (get_urlSigner env pkPath keypairID)) \<or>
          isl (parse_duration env opts) \<longrightarrow>
            snd (newCloudFrontStorageMiddleware env d opts) = (opts, []))"
proof -
  have l: "legacy_updatefrequency opts = (opts(''updatefrequency'' \<mapsto> v), [deprecation_warning])"
    by (simp add: assms legacy_updatefrequency_def)
  have "fst (newCloudFrontStorageMiddleware env d opts) =
           fst (newCloudFrontStorageMiddleware env d
                  ((opts(''updatefrenquency'' := None))(''updatefrequency'' \<mapsto> v)))"
    by (rule construct_cong) (simp_all add: assms legacy_updatefrequency_def)
  moreover have "parse_updatefrequency env (fst (legacy_updatefrequency opts)) =
           parse_updatefrequency env [''updatefrequency'' \<mapsto> v]"
    by (rule parse_updatefrequency_cong) (simp add: l)
  moreover have w: "snd (legacy_updatefrequency opts) = [deprecation_warning]"
    by (simp add: l)
  moreover have "snd (snd (newCloudFrontStorageMiddleware env d opts)) = [deprecation_warning]"
    if "fst (newCloudFrontStorageMiddleware env d opts) = Inr mw" for mw
    using constructed_logged [OF that] w by simp
  moreover have "snd (newCloudFrontStorageMiddleware env d opts) =
              (opts(''updatefrequency'' \<mapsto> v), [deprecation_warning])"
    if "parse_baseurl env opts = Inr base \<and> parse_privatekey opts = Inr pkPath \<and>
          parse_keypairid opts = Inr keypairID \<and>
          get_urlSigner env pkPath keypairID = Inr signer \<and>
          parse_duration env opts = Inr dur"
  proof -
    from that have "snd (newCloudFrontStorageMiddleware env d opts) = legacy_updatefrequency opts"
      by (elim conjE) (rule construct_reaches_legacy)
    with l show ?thesis by simp
  qed
  moreover have "snd (newCloudFrontStorageMiddleware env d opts) = (opts, [])"
    if "isl (parse_baseurl env opts) \<or> isl (parse_privatekey opts) \<or>
          isl (parse_keypairid opts) \<or>
          (\<exists>pkPath keypairID. parse_privatekey opts = Inr pkPath \<and>
              parse_keypairid opts = Inr keypairID \<and>
              isl (get_urlSigner env pkPath keypairID)) \<or>
          isl (parse_duration env opts)"
    using that by (rule construct_before_legacy)
  ultimately show ?thesis by blast
qed

theorem legacy_key_honoured_witness:
  "(example_options(''updatefrenquency'' \<mapsto> VString ''1h'')) ''updatefrenquency'' =
     Some (VString ''1h'') \<and>
   fst (newCloudFrontStorageMiddleware example_world s3_driver
          (example_options(''updatefrequency'' \<mapsto> VString ''1h''))) =
     Inr (example_middleware\<lparr>awsIPs :=
            Some (''https://ip-ranges.amazonaws.com/ip-ranges.json'', 3600000000000, [])\<rparr>) \<and>
   fst (newCloudFrontStorageMiddleware example_world s3_driver
          (example_options(''updatefrenquency'' \<mapsto> VString ''1h''))) =
     Inr (example_middleware\<lparr>awsIPs :=
            Some (''https://ip-ranges.amazonaws.com/ip-ranges.json'', 3600000000000, [])\<rparr>) \<and>
   snd (snd (newCloudFrontStorageMiddleware example_world s3_driver
          (example_options(''updatefrenquency'' \<mapsto> VString ''1h'')))) = [deprecation_warning] \<and>
   (example_options(''updatefrenquency'' \<mapsto> VString ''soon'')) ''updatefrenquency'' =
     Some (VString ''soon'') \<and>
   fst (newCloudFrontStorageMiddleware example_world s3_driver
          (example_options(''updatefrenquency'' \<mapsto> VString ''soon''))) =
     Inl (Error ''invalid updatefrequency: time: invalid duration'') \<and>
   snd (newCloudFrontStorageMiddleware example_world s3_driver
          (example_options(''updatefrenquency'' \<mapsto> VString ''soon''))) =
     (example_options(''updatefrenquency'' \<mapsto> VString ''soon'',
                      ''updatefrequency'' \<mapsto> VString ''soon''), [deprecation_warning])"
proof -
  have l: "(example_options(''updatefrenquency'' \<mapsto> VString ''1h'')) ''updatefrenquency'' =
     Some (VString ''1h'')"
    by simp
  have o: "((example_options(''updatefrenquency'' \<mapsto> VString ''1h''))
              (''updatefrenquency'' := None))(''updatefrequency'' \<mapsto> VString ''1h'') =
           example_options(''updatefrequency'' \<mapsto> VString ''1h'')"
    by (rule ext) (simp add: example_options_def)
  have c: "fst (newCloudFrontStorageMiddleware example_world s3_driver
          (example_options(''updatefrequency'' \<mapsto> VString ''1h''))) =
     Inr (example_middleware\<lparr>awsIPs :=
            Some (''https://ip-ranges.amazonaws.com/ip-ranges.json'', 3600000000000, [])\<rparr>)"
    by (simp add: constructor_defs HasSuffix_slash example_defs)
  note t = legacy_key_honoured [where env = example_world and d = s3_driver
      and opts = "example_options(''updatefrenquency'' \<mapsto> VString ''1h'')"
      and v = "VString ''1h''", OF l, unfolded o]
  from t [THEN conjunct1] c have r: "fst (newCloudFrontStorageMiddleware example_world s3_driver
          (example_options(''updatefrenquency'' \<mapsto> VString ''1h''))) =
     Inr (example_middleware\<lparr>awsIPs :=
            Some (''https://ip-ranges.amazonaws.com/ip-ranges.json'', 3600000000000, [])\<rparr>)"
    by (rule trans)
  have g: "snd (snd (newCloudFrontStorageMiddleware example_world s3_driver
          (example_options(''updatefrenquency'' \<mapsto> VString ''1h'')))) = [deprecation_warning]"
    by (rule t [THEN conjunct2, THEN conjunct2, THEN conjunct2, THEN conjunct1, THEN mp])
      (rule exI, rule r)
  have l2: "(example_options(''updatefrenquency'' \<mapsto> VString ''soon'')) ''updatefrenquency'' =
     Some (VString ''soon'')"
    by simp
  have f: "fst (newCloudFrontStorageMiddleware example_world s3_driver
          (example_options(''updatefrenquency'' \<mapsto> VString ''soon''))) =
     Inl (Error ''invalid updatefrequency: time: invalid duration'')"
    by (simp add: constructor_defs HasSuffix_slash example_defs)
  have b: "parse_baseurl example_world (example_options(''updatefrenquency'' \<mapsto> VString ''soon'')) =
      Inr ''https://d111111abcdef8.cloudfront.net/'' \<and>
    parse_privatekey (example_options(''updatefrenquency'' \<mapsto> VString ''soon'')) =
      Inr ''/etc/docker/cloudfront.pem'' \<and>
    parse_keypairid (example_options(''updatefrenquency'' \<mapsto> VString ''soon'')) =
      Inr ''K2JCJMDEHXQW5F'' \<and>
    get_urlSigner example_world ''/etc/docker/cloudfront.pem'' ''K2JCJMDEHXQW5F'' =
      Inr \<lparr>keyID = ''K2JCJMDEHXQW5F'', privKey = ''RSA''\<rparr> \<and>
    parse_duration example_world (example_options(''updatefrenquency'' \<mapsto> VString ''soon'')) =
      Inr 1200000000000"
    by (simp add: constructor_defs HasSuffix_slash example_defs)
  note u = legacy_key_honoured [where env = example_world and d = s3_driver
      and opts = "example_options(''updatefrenquency'' \<mapsto> VString ''soon'')"
      and v = "VString ''soon''" and base = "''https://d111111abcdef8.cloudfront.net/''"
      and pkPath = "''/etc/docker/cloudfront.pem''" and keypairID = "''K2JCJMDEHXQW5F''"
      and signer = "\<lparr>keyID = ''K2JCJMDEHXQW5F'', privKey = ''RSA''\<rparr>"
      and dur = 1200000000000, OF l2]
  have h: "snd (newCloudFrontStorageMiddleware example_world s3_driver
          (example_options(''updatefrenquency'' \<mapsto> VString ''soon''))) =
     (example_options(''updatefrenquency'' \<mapsto> VString ''soon'',
                      ''updatefrequency'' \<mapsto> VString ''soon''), [deprecation_warning])"
    by (rule u [THEN conjunct2, THEN conjunct2, THEN conjunct2, THEN conjunct2,
          THEN conjunct1, THEN mp]) (rule b)
  from l c r g l2 f h show ?thesis by (intro conjI)
qed

text \<open>
  Claim C9. When the options hold both \<^verbatim>\<open>updatefrequency\<close> and \<^verbatim>\<open>updatefrenquency\<close>,
  the value of the misspelled key is written over the other one before the type switch
  reads it: the refresh interval is parsed from the misspelled key's value, and the
  constructor's result does not depend on what stood under \<^verbatim>\<open>updatefrequency\<close>.
\<close>

theorem legacy_key_overrides:
  assumes "opts ''updatefrequency'' = Some a" and "opts ''updatefrenquency'' = Some b"
  shows "fst (legacy_updatefrequency opts) ''updatefrequency'' = Some b \<and>
         parse_updatefrequency env (fst (legacy_updatefrequency opts)) =
           parse_updatefrequency env [''updatefrequency'' \<mapsto> b] \<and>
         fst (newCloudFrontStorageMiddleware env d opts) =
           fst (newCloudFrontStorageMiddleware env d (opts(''updatefrequency'' \<mapsto> a')))"
proof -
  have "fst (legacy_updatefrequency opts) ''updatefrequency'' = Some b"
    by (simp add: assms legacy_updatefrequency_def)
  moreover from this
  have "parse_updatefrequency env (fst (legacy_updatefrequency opts)) =
           parse_updatefrequency env [''updatefrequency'' \<mapsto> b]"
    by (intro parse_updatefrequency_cong) simp
  moreover have "fst (newCloudFrontStorageMiddleware env d opts) =
           fst (newCloudFrontStorageMiddleware env d (opts(''updatefrequency'' \<mapsto> a')))"
    by (rule construct_cong) (simp_all add: assms legacy_updatefrequency_def)
  ultimately show ?thesis by blast
qed

theorem legacy_key_overrides_witness:
  "(example_options(''updatefrequency'' \<mapsto> VString ''30m'',
       ''updatefrenquency'' \<mapsto> VString ''1h'')) ''updatefrequency'' = Some (VString ''30m'') \<and>
   (example_options(''updatefrequency'' \<mapsto> VString ''30m'',
       ''updatefrenquency'' \<mapsto> VString ''1h'')) ''updatefrenquency'' = Some (VString ''1h'') \<and>
   fst (legacy_updatefrequency (example_options(''updatefrequency'' \<mapsto> VString ''30m'',
       ''updatefrenquency'' \<mapsto> VString ''1h''))) ''updatefrequency'' = Some (VString ''1h'') \<and>
   parse_updatefrequency example_world
     (fst (legacy_updatefrequency (example_options(''updatefrequency'' \<mapsto> VString ''30m'',
       ''updatefrenquency'' \<mapsto> VString ''1h'')))) = Inr 3600000000000"
proof -
  have a: "(example_options(''updatefrequency'' \<mapsto> VString ''30m'',
       ''updatefrenquency'' \<mapsto> VString ''1h'')) ''updatefrequency'' = Some (VString ''30m'')"
    and b: "(example_options(''updatefrequency'' \<mapsto> VString ''30m'',
       ''updatefrenquency'' \<mapsto> VString ''1h'')) ''updatefrenquency'' = Some (VString ''1h'')"
    by simp_all
  have p: "parse_updatefrequency example_world [''updatefrequency'' \<mapsto> VString ''1h''] =
             Inr 3600000000000"
    by (simp add: parse_updatefrequency_def example_world_def Minute_def)
  note t = legacy_key_overrides [where env = example_world and d = s3_driver
      and opts = "example_options(''updatefrequency'' \<mapsto> VString ''30m'',
         ''updatefrenquency'' \<mapsto> VString ''1h'')"
      and a = "VString ''30m''" and b = "VString ''1h''", OF a b]
  from a b t [THEN conjunct1] t [THEN conjunct2, THEN conjunct1, unfolded p]
  show ?thesis by (intro conjI)
qed

text \<open>
  Claim C8. With \<open>sel\<close> the value of \<^verbatim>\<open>ipfilteredby\<close> after \<^verbatim>\<open>TrimSpace\<close> and
  \<^verbatim>\<open>ToLower\<close>: a value that is not a string, or a string whose \<open>sel\<close> is none of the
  empty string, \<^verbatim>\<open>none\<close>, \<^verbatim>\<open>aws\<close>, \<^verbatim>\<open>awsregion\<close>, makes the constructor return an error;
  so does \<open>sel\<close> = \<^verbatim>\<open>awsregion\<close> when \<^verbatim>\<open>awsregion\<close> is absent or not a string; and when
  \<^verbatim>\<open>ipfilteredby\<close> is absent or \<open>sel\<close> = \<^verbatim>\<open>none\<close>, a constructed middleware has a nil
  \<^verbatim>\<open>awsIPs\<close> and the constructor's result does not depend on \<^verbatim>\<open>newAWSIPs\<close>, which is
  not called.
\<close>

theorem ipfilteredby_rules:
  "(opts ''ipfilteredby'' = Some v \<and>
    (\<forall>s. v = VString s \<longrightarrow>
       strings_ToLower env (strings_TrimSpace env s) \<notin> {[], ''none'', ''aws'', ''awsregion''})
      \<longrightarrow> (\<exists>err. fst (newCloudFrontStorageMiddleware env d opts) = Inl err)) \<and>
   (opts ''ipfilteredby'' = Some (VString s) \<and>
    strings_ToLower env (strings_TrimSpace env s) = ''awsregion'' \<and>
    (\<forall>regions. opts ''awsregion'' \<noteq> Some (VString regions))
      \<longrightarrow> (\<exists>err. fst (newCloudFrontStorageMiddleware env d opts) = Inl err)) \<and>
   (opts ''ipfilteredby'' = None \<or>
    opts ''ipfilteredby'' = Some (VString s) \<and>
    strings_ToLower env (strings_TrimSpace env s) = ''none''
      \<longrightarrow> (\<forall>mw. fst (newCloudFrontStorageMiddleware env d opts) = Inr mw \<longrightarrow> awsIPs mw = None) \<and>
          fst (newCloudFrontStorageMiddleware (env\<lparr>newAWSIPs := g\<rparr>) d opts) =
            fst (newCloudFrontStorageMiddleware env d opts))"
proof (intro conjI impI)
  assume h: "opts ''ipfilteredby'' = Some v \<and>
    (\<forall>s. v = VString s \<longrightarrow>
       strings_ToLower env (strings_TrimSpace env s) \<notin> {[], ''none'', ''aws'', ''awsregion''})"
  have "isl (parse_ipfilteredby env opts u f)" for u f
  proof (cases v)
    case (VString s)
    with h have "strings_ToLower env (strings_TrimSpace env s) \<noteq> []"
      "strings_ToLower env (strings_TrimSpace env s) \<noteq> ''none''"
      "strings_ToLower env (strings_TrimSpace env s) \<noteq> ''aws''"
      "strings_ToLower env (strings_TrimSpace env s) \<noteq> ''awsregion''"
      by simp_all
    with h VString show ?thesis by (simp add: parse_ipfilteredby_def Let_def)
  qed (use h in \<open>simp_all add: parse_ipfilteredby_def\<close>)
  then show "\<exists>err. fst (newCloudFrontStorageMiddleware env d opts) = Inl err"
    by (rule construct_fails)
next
  assume h: "opts ''ipfilteredby'' = Some (VString s) \<and>
    strings_ToLower env (strings_TrimSpace env s) = ''awsregion'' \<and>
    (\<forall>regions. opts ''awsregion'' \<noteq> Some (VString regions))"
  have "isl (parse_ipfilteredby env opts u f)" for u f
  proof (cases "opts ''awsregion''")
    case None
    with h show ?thesis by (simp add: parse_ipfilteredby_def Let_def)
  next
    case (Some w)
    with h have "\<forall>regions. w \<noteq> VString regions" by simp
    then show ?thesis
      using h Some by (cases w) (simp_all add: parse_ipfilteredby_def Let_def)
  qed
  then show "\<exists>err. fst (newCloudFrontStorageMiddleware env d opts) = Inl err"
    by (rule construct_fails)
next
  assume "opts ''ipfilteredby'' = None \<or>
    opts ''ipfilteredby'' = Some (VString s) \<and>
    strings_ToLower env (strings_TrimSpace env s) = ''none''"
  then have off: "opts ''ipfilteredby'' = None \<or>
      (\<exists>s. opts ''ipfilteredby'' = Some (VString s) \<and>
           (strings_ToLower env (strings_TrimSpace env s) = [] \<or>
            strings_ToLower env (strings_TrimSpace env s) = ''none''))"
    by (elim disjE conjE) (simp_all del: not_None_eq)
  show "\<forall>mw. fst (newCloudFrontStorageMiddleware env d opts) = Inr mw \<longrightarrow> awsIPs mw = None"
  proof (intro allI impI)
    fix mw
    assume "fst (newCloudFrontStorageMiddleware env d opts) = Inr mw"
    from constructed_awsIPs [OF this] obtain u f where
      "parse_ipfilteredby env opts u f = Inr (awsIPs mw)" by (elim exE)
    with parse_ipfilteredby_disabled [where env = env and opts = opts, OF off, of u f] show "awsIPs mw = None" by simp
  qed
  from off show "fst (newCloudFrontStorageMiddleware (env\<lparr>newAWSIPs := g\<rparr>) d opts) =
            fst (newCloudFrontStorageMiddleware env d opts)"
    by (rule construct_without_newAWSIPs)
qed

theorem ipfilteredby_rules_witness:
  "(example_options(''ipfilteredby'' \<mapsto> VBool True)) ''ipfilteredby'' = Some (VBool True) \<and>
   (\<exists>err. fst (newCloudFrontStorageMiddleware example_world s3_driver
              (example_options(''ipfilteredby'' \<mapsto> VBool True))) = Inl err) \<and>
   (example_options(''ipfilteredby'' \<mapsto> VString ''AwsRegion '')) ''ipfilteredby'' =
      Some (VString ''AwsRegion '') \<and>
   ascii_ToLower (ascii_TrimSpace ''AwsRegion '') = ''awsregion'' \<and>
   (\<exists>err. fst (newCloudFrontStorageMiddleware example_world s3_driver
              (example_options(''ipfilteredby'' \<mapsto> VString ''AwsRegion ''))) = Inl err) \<and>
   (example_options(''ipfilteredby'' \<mapsto> VString ''None'')) ''ipfilteredby'' =
      Some (VString ''None'') \<and>
   ascii_ToLower (ascii_TrimSpace ''None'') = ''none'' \<and>
   fst (newCloudFrontStorageMiddleware example_world s3_driver
          (example_options(''ipfilteredby'' \<mapsto> VString ''None''))) =
     Inr (example_middleware\<lparr>awsIPs := None\<rparr>) \<and>
   awsIPs (example_middleware\<lparr>awsIPs := None\<rparr>) = None"
proof -
  have w: "strings_ToLower example_world = ascii_ToLower"
    "strings_TrimSpace example_world = ascii_TrimSpace"
    by (simp_all add: example_world_def)
  have 1: "(example_options(''ipfilteredby'' \<mapsto> VBool True)) ''ipfilteredby'' = Some (VBool True)"
    by simp
  from ipfilteredby_rules [of "example_options(''ipfilteredby'' \<mapsto> VBool True)" "VBool True"
      example_world s3_driver]
  have a: "\<exists>err. fst (newCloudFrontStorageMiddleware example_world s3_driver
              (example_options(''ipfilteredby'' \<mapsto> VBool True))) = Inl err"
    by simp
  have 2: "(example_options(''ipfilteredby'' \<mapsto> VString ''AwsRegion '')) ''ipfilteredby'' =
      Some (VString ''AwsRegion '')"
    by simp
  have l2: "ascii_ToLower (ascii_TrimSpace ''AwsRegion '') = ''awsregion''"
    by (simp add: example_defs)
  have n2: "\<forall>regions. (example_options(''ipfilteredby'' \<mapsto> VString ''AwsRegion '')) ''awsregion'' \<noteq>
      Some (VString regions)"
    by (simp add: example_options_def)
  from ipfilteredby_rules [of "example_options(''ipfilteredby'' \<mapsto> VString ''AwsRegion '')" _
      example_world s3_driver "''AwsRegion ''"] 2 l2 n2
  have b: "\<exists>err. fst (newCloudFrontStorageMiddleware example_world s3_driver
              (example_options(''ipfilteredby'' \<mapsto> VString ''AwsRegion ''))) = Inl err"
    unfolding w by blast
  have 3: "(example_options(''ipfilteredby'' \<mapsto> VString ''None'')) ''ipfilteredby'' =
      Some (VString ''None'')"
    by simp
  have l3: "ascii_ToLower (ascii_TrimSpace ''None'') = ''none''"
    by (simp add: example_defs)
  have c: "fst (newCloudFrontStorageMiddleware example_world s3_driver
          (example_options(''ipfilteredby'' \<mapsto> VString ''None''))) =
     Inr (example_middleware\<lparr>awsIPs := None\<rparr>)"
    by (simp add: constructor_defs HasSuffix_slash example_defs)
  from ipfilteredby_rules [of "example_options(''ipfilteredby'' \<mapsto> VString ''None'')" _
      example_world s3_driver "''None''"] 3 l3 c
  have d: "awsIPs (example_middleware\<lparr>awsIPs := None\<rparr>) = None"
    unfolding w by blast
  from 1 a 2 l2 b 3 l3 c d show ?thesis by blast
qed

text \<open>
  Claim C10. The struct declares no method but \<^verbatim>\<open>RedirectURL\<close>, so every other
  operation called on the middleware is answered by the embedded driver; and the
  constructor embeds the driver it was given, unchanged. Every other operation on a
  constructed middleware therefore returns what the wrapped driver returns on the same
  input.
\<close>

theorem other_operations_delegated:
  "middleware_invoke lh c = drv_invoke (StorageDriver lh) c \<and>
   (fst (newCloudFrontStorageMiddleware env d opts) = Inr mw \<longrightarrow>
      StorageDriver mw = d \<and> middleware_invoke mw c = drv_invoke d c)"
  by (auto simp: middleware_invoke_def dest: constructed_fields(3))

theorem other_operations_delegated_witness:
  "fst (newCloudFrontStorageMiddleware example_world s3_driver example_options) =
     Inr example_middleware \<and>
   StorageDriver example_middleware = s3_driver \<and>
   middleware_invoke example_middleware ''Stat /blobs/ab'' = drv_invoke s3_driver ''Stat /blobs/ab'' \<and>
   middleware_invoke example_middleware ''Stat /blobs/ab'' = ''s3: Stat /blobs/ab''"
proof -
  have "drv_invoke s3_driver ''Stat /blobs/ab'' = ''s3: Stat /blobs/ab''"
    by (simp add: s3_driver_def)
  with example_construction
    other_operations_delegated [of example_middleware "''Stat /blobs/ab''" example_world
      s3_driver example_options example_middleware]
  show ?thesis by simp
qed

end
